theory Spec2Isabelle
  imports Main
begin

section \<open>CSV import dialog (src/ImportCsvDialog.cpp)\<close>

text \<open>
  A shallow embedding of the non-presentational logic of \<^verbatim>\<open>ImportCsvDialog\<close>:
  \<^verbatim>\<open>generateFieldList\<close>, \<^verbatim>\<open>matchSimilar\<close>, \<^verbatim>\<open>checkInput\<close>, \<^verbatim>\<open>parseCSV\<close>,
  \<^verbatim>\<open>importCsv\<close> and the file-local helper \<^verbatim>\<open>rollback\<close>.

  A \<^verbatim>\<open>QString\<close> is a \<^typ>\<open>string\<close>; where the source distinguishes the null
  \<^verbatim>\<open>QString()\<close> from the empty string (the list \<^verbatim>\<open>nullValues\<close>) the value is a
  \<^typ>\<open>string option\<close> with \<^term>\<open>None\<close> for the null string. \<^verbatim>\<open>tr\<close> is the identity
  (no translation loaded). Sizes and indices (\<^verbatim>\<open>int\<close>, \<^verbatim>\<open>size_t\<close>) are natural
  numbers: no list of the dialog reaches the range where they would wrap.
\<close>

subsection \<open>Strings\<close>

text \<open>\<^verbatim>\<open>QString("...%1").arg(n)\<close> for a non-negative integer: its decimal numeral.\<close>

definition digit :: "nat \<Rightarrow> char" where
  "digit d = ''0123456789'' ! d"

function number :: "nat \<Rightarrow> string" where
  "number n = (if n < 10 then [digit n] else number (n div 10) @ [digit (n mod 10)])"
  by pat_completeness auto
termination
  by (relation "measure (\<lambda>n. n)") auto

declare number.simps [simp del]

text \<open>\<^verbatim>\<open>s.replace(c, "")\<close>: every occurrence of the character \<open>c\<close> is removed.\<close>

definition replace_empty :: "char \<Rightarrow> string \<Rightarrow> string" where
  "replace_empty c s = filter (\<lambda>x. x \<noteq> c) s"

text \<open>\<^verbatim>\<open>s.chop(n)\<close>: the last \<open>n\<close> characters are removed.\<close>

definition chop :: "nat \<Rightarrow> string \<Rightarrow> string" where
  "chop n s = take (length s - n) s"

subsection \<open>Fields\<close>

text \<open>
  Modelled from the spec: \<^verbatim>\<open>sqlb::Field\<close> (sqlitetypes.cpp is not part of the
  sources). The dialog uses its constructor \<^verbatim>\<open>Field(name, type)\<close> and the getters
  \<^verbatim>\<open>name()\<close>, \<^verbatim>\<open>isInteger()\<close> and \<^verbatim>\<open>notnull()\<close>; the spec gives a column of the
  store the attributes \<open>is_integer\<close> and \<open>not_null\<close>.
\<close>

record Field =
  name :: string
  type :: string
  notnull :: bool
  isInteger :: bool

text \<open>
  Modelled from the spec: the constructor \<^verbatim>\<open>sqlb::Field(name, type)\<close>. A new field
  has no NOT NULL constraint; the dialog only builds fields of the empty type, which
  is not an integer type.
\<close>

definition new_Field :: "string \<Rightarrow> string \<Rightarrow> Field" where
  "new_Field n t = \<lparr>name = n, type = t, notnull = False, isInteger = False\<rparr>"

subsection \<open>The store\<close>

text \<open>
  The store and the SQLite statement interface are outside this file (sqlitedb.cpp,
  sqlitetypes.cpp and the SQLite library are not part of the sources): the dialog only
  calls them. Each is modelled from section 6 of the spec, as little as the
  dialog's code needs. Whether a call succeeds is decided outside the dialog and is
  a parameter of the model (the record \<open>Status\<close>).
\<close>

text \<open>
  Modelled from the spec: \<^verbatim>\<open>sqlb::Table\<close>, of which the dialog reads \<^verbatim>\<open>fields()\<close> (here
  \<open>tfields\<close>); the rows are kept with it, a value being \<^term>\<open>None\<close> for SQL NULL or
  the bound text.
\<close>

record Table =
  tfields :: "Field list"
  rows :: "string option list list"

text \<open>
  Modelled from the spec: \<^verbatim>\<open>sqlb::Object\<close> with its \<^verbatim>\<open>type()\<close>: a table, or an object
  of another type (index, view, trigger).
\<close>

datatype Object = TableObject Table | OtherObject

text \<open>The calls that the dialog makes into the store, for the properties that speak of calls.\<close>

datatype call =
    SetSavepoint string
  | RevertToSavepoint string
  | CreateTable string "Field list"
  | Step string "string option list"

text \<open>
  Modelled from the spec: \<^verbatim>\<open>DBBrowserDB\<close>. The store holds the objects of schema
  \<open>main\<close> by name, the open savepoints (each with the objects as they were when it
  was set), the text of the last error and the list of the calls made so far.
\<close>

record DBBrowserDB =
  objects :: "(string \<times> Object) list"
  savepoints :: "(string \<times> (string \<times> Object) list) list"
  lastError :: string
  calls :: "call list"

text \<open>Modelled from the spec: \<^verbatim>\<open>DBBrowserDB::getObjectByName\<close> for schema \<open>main\<close>.\<close>

definition getObjectByName :: "DBBrowserDB \<Rightarrow> string \<Rightarrow> Object option" where
  "getObjectByName db n = map_of (objects db) n"

text \<open>
  The status of each call into the store: \<^term>\<open>None\<close> for success, otherwise the text
  that \<^verbatim>\<open>lastError()\<close> returns afterwards. It may depend on the state of the store.
\<close>

record Status =
  setSavepointError :: "DBBrowserDB \<Rightarrow> string \<Rightarrow> string option"
  createTableError :: "DBBrowserDB \<Rightarrow> string \<Rightarrow> Field list \<Rightarrow> string option"
  stepError :: "DBBrowserDB \<Rightarrow> string \<Rightarrow> string option list \<Rightarrow> string option"

text \<open>
  Modelled from the spec: \<^verbatim>\<open>DBBrowserDB::setSavepoint\<close>. A savepoint that is set
  remembers the objects of the store; a rejected one changes nothing but the last
  error.
\<close>

definition setSavepoint :: "('x) Status_scheme \<Rightarrow> string \<Rightarrow> DBBrowserDB \<Rightarrow> bool \<times> DBBrowserDB" where
  "setSavepoint w pointname db =
     (case setSavepointError w db pointname of
        Some e \<Rightarrow> (False, db\<lparr>lastError := e, calls := calls db @ [SetSavepoint pointname]\<rparr>)
      | None \<Rightarrow> (True, db\<lparr>savepoints := (pointname, objects db) # savepoints db,
                           calls := calls db @ [SetSavepoint pointname]\<rparr>))"

text \<open>
  Modelled from the spec: \<^verbatim>\<open>DBBrowserDB::revertToSavepoint\<close>. Rolling back to a
  savepoint restores the objects as they were when the most recent savepoint of that
  name was set and closes it together with the later ones; for a name that is not
  open nothing changes.
\<close>

definition revertToSavepoint :: "string \<Rightarrow> DBBrowserDB \<Rightarrow> DBBrowserDB" where
  "revertToSavepoint pointname db =
     (let db' = db\<lparr>calls := calls db @ [RevertToSavepoint pointname]\<rparr>
      in case dropWhile (\<lambda>p. fst p \<noteq> pointname) (savepoints db) of
           [] \<Rightarrow> db'
         | p # older \<Rightarrow> db'\<lparr>objects := snd p, savepoints := older\<rparr>)"

text \<open>
  Modelled from the spec: \<^verbatim>\<open>DBBrowserDB::createTable\<close>. A created table has the given
  fields and no rows; a failed creation changes nothing but the last error.
\<close>

definition createTable :: "('x) Status_scheme \<Rightarrow> string \<Rightarrow> Field list \<Rightarrow> DBBrowserDB \<Rightarrow> bool \<times> DBBrowserDB" where
  "createTable w n structure db =
     (case createTableError w db n structure of
        Some e \<Rightarrow> (False, db\<lparr>lastError := e, calls := calls db @ [CreateTable n structure]\<rparr>)
      | None \<Rightarrow> (True, db\<lparr>objects := (n, TableObject \<lparr>tfields = structure, rows = []\<rparr>) # objects db,
                           calls := calls db @ [CreateTable n structure]\<rparr>))"

text \<open>
  Modelled from the spec: the effect of a successful INSERT. The new row goes into
  the object that the name denotes, when that is a table.
\<close>

fun insert_into :: "string \<Rightarrow> string option list \<Rightarrow> (string \<times> Object) list \<Rightarrow> (string \<times> Object) list" where
  "insert_into n vals [] = []"
| "insert_into n vals ((m, obj) # objs) =
     (if m = n
      then (case obj of
              TableObject t \<Rightarrow> (m, TableObject (t\<lparr>rows := rows t @ [vals]\<rparr>)) # objs
            | OtherObject \<Rightarrow> (m, obj) # objs)
      else (m, obj) # insert_into n vals objs)"

text \<open>
  Modelled from the spec: the prepared statement \<^verbatim>\<open>INSERT INTO t VALUES(?1,...,?n)\<close>,
  with its text, its table and the values bound to its \<open>n\<close> parameters (\<^term>\<open>None\<close>:
  unbound, which SQLite reads as NULL). The dialog ignores the status of
  \<^verbatim>\<open>sqlite3_prepare_v2\<close> and of \<^verbatim>\<open>sqlite3_bind_text\<close>. \<^verbatim>\<open>sqlite3_reset\<close> and
  \<^verbatim>\<open>sqlite3_finalize\<close> change nothing that the model holds.
\<close>

record Stmt =
  sql :: string
  into :: string
  bindings :: "string option list"

text \<open>Modelled from the spec: \<^verbatim>\<open>sqlite3_prepare_v2\<close> for that statement; nothing is bound yet.\<close>

definition sqlite3_prepare_v2 :: "string \<Rightarrow> string \<Rightarrow> nat \<Rightarrow> Stmt" where
  "sqlite3_prepare_v2 sQuery tableName n =
     \<lparr>sql = sQuery, into = tableName, bindings = replicate n None\<rparr>"

text \<open>
  Modelled from the spec: \<^verbatim>\<open>sqlite3_bind_text\<close> with a 1-based parameter index; an
  index outside \<open>1..n\<close> leaves the statement as it is.
\<close>

definition sqlite3_bind_text :: "Stmt \<Rightarrow> nat \<Rightarrow> string \<Rightarrow> Stmt" where
  "sqlite3_bind_text stmt idx val =
     (if 1 \<le> idx \<and> idx \<le> length (bindings stmt)
      then stmt\<lparr>bindings := (bindings stmt)[idx - 1 := Some val]\<rparr>
      else stmt)"

text \<open>Modelled from the spec: \<^verbatim>\<open>sqlite3_clear_bindings\<close>.\<close>

definition sqlite3_clear_bindings :: "Stmt \<Rightarrow> Stmt" where
  "sqlite3_clear_bindings stmt = stmt\<lparr>bindings := replicate (length (bindings stmt)) None\<rparr>"

text \<open>
  Modelled from the spec: \<^verbatim>\<open>sqlite3_step(stmt) == SQLITE_DONE\<close>, and the store
  afterwards: on success the bound values are a new row of the statement's table.
\<close>

definition sqlite3_step :: "('x) Status_scheme \<Rightarrow> Stmt \<Rightarrow> DBBrowserDB \<Rightarrow> bool \<times> DBBrowserDB" where
  "sqlite3_step w stmt db =
     (case stepError w db (into stmt) (bindings stmt) of
        Some e \<Rightarrow> (False, db\<lparr>lastError := e, calls := calls db @ [Step (into stmt) (bindings stmt)]\<rparr>)
      | None \<Rightarrow> (True, db\<lparr>objects := insert_into (into stmt) (bindings stmt) (objects db),
                           calls := calls db @ [Step (into stmt) (bindings stmt)]\<rparr>))"

subsection \<open>The tokenizer, as the dialog sees it\<close>

text \<open>Modelled from the spec: \<^verbatim>\<open>CSVParser::ParserResult\<close>, of which the dialog names these three.\<close>

datatype ParserResult = ParserResultSuccess | ParserResultCancelled | ParserResultError

text \<open>
  What the tokenizer meets while it reads one file with the dialog's dialect: a
  complete record, a progress checkpoint (with the answer the progress sink gives
  there: \<^term>\<open>True\<close> to go on, \<^term>\<open>False\<close> when the user has cancelled), or a
  failure of the source.
\<close>

datatype chunk = Record "string list" | Progress bool | SourceError

text \<open>
  Modelled from the spec: \<^verbatim>\<open>CSVParser::parse\<close> (csvparser.cpp is not part of the
  sources). The row function is called once per record with the 0-based row index;
  when it returns false the parser stops and returns \<open>rej\<close>; with a row limit
  \<open>nMaxRecords \<ge> 0\<close> it stops with success after that many records; the progress
  sink is polled only when one is set, and its answer false gives
  \<^term>\<open>ParserResultCancelled\<close>; a failing source gives \<^term>\<open>ParserResultError\<close>.
  The result \<open>rej\<close> for a rejected row is a parameter: section 4.1 of the spec names
  it Cancelled, section 4.4 a failure distinct from cancellation. The calls
  \<^verbatim>\<open>start()\<close> and \<^verbatim>\<open>end()\<close> of the progress sink only show and hide a dialog.
\<close>

fun parse :: "(nat \<Rightarrow> string list \<Rightarrow> 's \<Rightarrow> bool \<times> 's) \<Rightarrow> ParserResult \<Rightarrow> bool \<Rightarrow> int
    \<Rightarrow> chunk list \<Rightarrow> nat \<Rightarrow> 's \<Rightarrow> ParserResult \<times> 's" where
  "parse rowFunction rej sink nMaxRecords [] parsedRows s = (ParserResultSuccess, s)"
| "parse rowFunction rej sink nMaxRecords (c # cs) parsedRows s =
     (if 0 \<le> nMaxRecords \<and> nMaxRecords \<le> int parsedRows then (ParserResultSuccess, s)
      else case c of
        Record r \<Rightarrow>
          (let (ok, s') = rowFunction parsedRows r s
           in if ok then parse rowFunction rej sink nMaxRecords cs (Suc parsedRows) s'
              else (rej, s'))
      | Progress continue \<Rightarrow>
          (if sink \<and> \<not> continue then (ParserResultCancelled, s)
           else parse rowFunction rej sink nMaxRecords cs parsedRows s)
      | SourceError \<Rightarrow> (ParserResultError, s))"

subsection \<open>The dialog and its surroundings\<close>

text \<open>
  Everything outside the dialog that one run depends on, besides the status of the
  store's calls: the files (already cut into chunks by the tokenizer under the
  dialog's separator, quote, trim and encoding settings), \<^verbatim>\<open>QFileInfo::baseName\<close>,
  \<^verbatim>\<open>sqlb::escapeIdentifier\<close>, the parser's result for a rejected row, the user's
  answer to the question box and the name that \<^verbatim>\<open>generateSavepointName\<close> returns.
\<close>

record World = Status +
  files :: "string \<Rightarrow> chunk list"
  baseName :: "string \<Rightarrow> string"
  escapeIdentifier :: "string \<Rightarrow> string"
  rowRejected :: ParserResult
  answerYes :: bool
  generateSavepointName :: "DBBrowserDB \<Rightarrow> string \<Rightarrow> string"

datatype CheckState = Unchecked | Checked

datatype Colour = NoColour | Green | White

text \<open>A \<^verbatim>\<open>QListWidgetItem\<close> of the file picker: display role, user role, check box, background.\<close>

record Item =
  displayText :: string
  userData :: string
  checkState :: CheckState
  background :: Colour

text \<open>
  The dialog: the widgets that the modelled functions read or write, the store
  \<^verbatim>\<open>pdb\<close>, and the texts of the warning boxes shown so far.
\<close>

record Dialog =
  csvFilenames :: "string list"
  checkboxHeader :: bool
  checkBoxSeparateTables :: bool
  editName :: string
  filePickerBlockVisible :: bool
  filePicker :: "Item list"
  currentItem :: "nat option"
  matchSimilarEnabled :: bool
  okEnabled :: bool
  pdb :: DBBrowserDB
  warnings :: "string list"

text \<open>
  \<^verbatim>\<open>ImportCsvDialog::parseCSV\<close>: a progress dialog is attached only for
  \<^verbatim>\<open>count == -1\<close>.
\<close>

definition parseCSV :: "World \<Rightarrow> string \<Rightarrow> (nat \<Rightarrow> string list \<Rightarrow> 's \<Rightarrow> bool \<times> 's)
    \<Rightarrow> int \<Rightarrow> 's \<Rightarrow> ParserResult \<times> 's" where
  "parseCSV w fileName rowFunction count s =
     parse rowFunction (rowRejected w) (count = - 1) count (files w fileName) 0 s"

text \<open>\<^verbatim>\<open>ImportCsvDialog::checkInput\<close>.\<close>

definition checkInput :: "Dialog \<Rightarrow> Dialog" where
  "checkInput d =
     (let allowImporting =
            (if filePickerBlockVisible d
             then editName d \<noteq> [] \<and> list_ex (\<lambda>item. checkState item = Checked) (filePicker d)
             else editName d \<noteq> []);
          d1 = (case currentItem d of
                  None \<Rightarrow> d
                | Some k \<Rightarrow> d\<lparr>filePicker :=
                     (filePicker d)[k := (filePicker d ! k)\<lparr>userData := editName d\<rparr>]\<rparr>)
      in d1\<lparr>matchSimilarEnabled := (currentItem d \<noteq> None), okEnabled := allowImporting\<rparr>)"

subsection \<open>Schema inference: generateFieldList\<close>

text \<open>The six \<^verbatim>\<open>fieldname.replace(..., "")\<close> calls, in the order of the source.\<close>

definition remove_invalid :: "string \<Rightarrow> string" where
  "remove_invalid s =
     replace_empty (CHR '';'')
       (replace_empty (CHR '','')
         (replace_empty (CHR 0x27)
           (replace_empty (CHR 0x22)
             (replace_empty (CHR '' '')
               (replace_empty (CHR 0x60) s)))))"

text \<open>The body of the \<^verbatim>\<open>for\<close> loop up to \<^verbatim>\<open>push_back\<close>: the name of column \<open>i\<close>.\<close>

definition fieldname :: "bool \<Rightarrow> nat \<Rightarrow> string list \<Rightarrow> nat \<Rightarrow> string" where
  "fieldname header rowNum data i =
     (let fieldname = (if rowNum = 0 \<and> header then remove_invalid (data ! i) else [])
      in if fieldname = [] then ''field'' @ number (i + 1) else fieldname)"

text \<open>
  \<^verbatim>\<open>for(int i=fieldList.size(); i<data.size(); i++)\<close>; \<open>data ! i\<close> is read under
  the loop guard only.
\<close>

function add_fields :: "bool \<Rightarrow> nat \<Rightarrow> string list \<Rightarrow> nat \<Rightarrow> Field list \<Rightarrow> Field list" where
  "add_fields header rowNum data i fieldList =
     (if i < length data
      then add_fields header rowNum data (i + 1)
             (fieldList @ [new_Field (fieldname header rowNum data i) ''''])
      else fieldList)"
  by pat_completeness auto
termination
  by (relation "measure (\<lambda>(header, rowNum, data, i, fieldList). length data - i)") auto

declare add_fields.simps [simp del]

text \<open>The row function of \<^verbatim>\<open>generateFieldList\<close>; it always returns true.\<close>

definition fieldListRow :: "bool \<Rightarrow> nat \<Rightarrow> string list \<Rightarrow> Field list \<Rightarrow> bool \<times> Field list" where
  "fieldListRow header rowNum data fieldList =
     (True, add_fields header rowNum data (length fieldList) fieldList)"

definition generateFieldList :: "World \<Rightarrow> Dialog \<Rightarrow> string \<Rightarrow> Field list" where
  "generateFieldList w d filename =
     snd (parseCSV w filename (fieldListRow (checkboxHeader d)) 20 [])"

subsection \<open>Header matching: matchSimilar\<close>

text \<open>
  \<^verbatim>\<open>std::equal(first1, last1, first2, pred)\<close> with the lambda that compares
  \<^verbatim>\<open>name()\<close>. The call is guarded by the comparison of the two counts, so the
  second range never ends before the first; the model answers false there.
\<close>

fun std_equal :: "Field list \<Rightarrow> Field list \<Rightarrow> bool" where
  "std_equal [] ys = True"
| "std_equal (item1 # xs) [] = False"
| "std_equal (item1 # xs) (item2 # ys) = (name item1 = name item2 \<and> std_equal xs ys)"

text \<open>The value of the local \<^verbatim>\<open>matchingHeader\<close> at the end of the loop body.\<close>

definition matchingHeader :: "Field list \<Rightarrow> Field list \<Rightarrow> bool" where
  "matchingHeader selectedHeader header =
     (if length selectedHeader = length header then std_equal selectedHeader header else False)"

text \<open>The loop body of \<^verbatim>\<open>matchSimilar\<close> for one item of the file picker.\<close>

definition matchSimilarItem :: "Field list \<Rightarrow> Field list \<Rightarrow> Item \<Rightarrow> Item" where
  "matchSimilarItem selectedHeader header item =
     (if length selectedHeader = length header
      then (if matchingHeader selectedHeader header
            then item\<lparr>checkState := Checked, background := Green\<rparr>
            else item)
      else item\<lparr>checkState := Unchecked, background := White\<rparr>)"

text \<open>
  \<^verbatim>\<open>ImportCsvDialog::matchSimilar\<close>. Without a current item the source dereferences
  a null pointer (the button is disabled then): the model returns \<^term>\<open>None\<close>.
\<close>

definition matchSimilar :: "World \<Rightarrow> Dialog \<Rightarrow> Dialog option" where
  "matchSimilar w d =
     (case currentItem d of
        None \<Rightarrow> None
      | Some k \<Rightarrow>
          if k < length (filePicker d)
          then (let selectedHeader = generateFieldList w d (displayText (filePicker d ! k))
                in Some (checkInput (d\<lparr>filePicker :=
                     map (\<lambda>item. matchSimilarItem selectedHeader (generateFieldList w d (displayText item)) item)
                       (filePicker d)\<rparr>)))
          else None)"

subsection \<open>The import: rollback and importCsv\<close>

text \<open>
  The helper \<^verbatim>\<open>rollback\<close> of the anonymous namespace: a warning box when the
  message is not empty, with the record number when it is not zero, then
  \<^verbatim>\<open>revertToSavepoint\<close>.
\<close>

definition rollback :: "Dialog \<Rightarrow> string \<Rightarrow> nat \<Rightarrow> string \<Rightarrow> Dialog" where
  "rollback dialog savepointName nRecord message =
     (let shown =
            (if message \<noteq> []
             then (let sCSVInfo = ''Error importing data'' @
                         (if nRecord \<noteq> 0 then '' from record number '' @ number nRecord else []);
                       error = sCSVInfo @ ''.'' @ [CHR ''\<newline>''] @ message
                   in dialog\<lparr>warnings := warnings dialog @ [error]\<rparr>)
             else dialog)
      in shown\<lparr>pdb := revertToSavepoint savepointName (pdb shown)\<rparr>)"

text \<open>Lines 391 to 402: the name of the table to import into.\<close>

definition tableNameFor :: "World \<Rightarrow> Dialog \<Rightarrow> string \<Rightarrow> string \<Rightarrow> string" where
  "tableNameFor w d fileName nm =
     (if length (csvFilenames d) > 1 \<and> checkBoxSeparateTables d
      then (if nm = [] then baseName w fileName else nm)
      else editName d)"

text \<open>
  Lines 449 to 461: the value to insert for an empty CSV field, per column of the
  existing table (\<^term>\<open>None\<close> is the null \<^verbatim>\<open>QString()\<close>).
\<close>

definition nullValueOf :: "Field \<Rightarrow> string option" where
  "nullValueOf f =
     (if isInteger f \<and> notnull f then Some ''0''
      else if isInteger f \<and> \<not> notnull f then None
      else Some [])"

definition nullValuesOf :: "DBBrowserDB \<Rightarrow> string \<Rightarrow> string option list" where
  "nullValuesOf db tableName =
     (case getObjectByName db tableName of
        Some (TableObject tbl) \<Rightarrow> map nullValueOf (tfields tbl)
      | _ \<Rightarrow> [])"

text \<open>Lines 465 to 469: the text of the INSERT statement.\<close>

definition insertQuery :: "World \<Rightarrow> string \<Rightarrow> nat \<Rightarrow> string" where
  "insertQuery w tableName n =
     chop 1 (''INSERT INTO '' @ escapeIdentifier w tableName @ '' VALUES('' @
             concat (map (\<lambda>i. ''?'' @ number i @ '','') [1..<n + 1])) @ '')''"

text \<open>
  Lines 491 to 505: \<^verbatim>\<open>for(int i=0;i<data.size();i++,bound_fields++)\<close>; the counter
  \<^verbatim>\<open>bound_fields\<close> is never read.
\<close>

function bind_values :: "bool \<Rightarrow> string option list \<Rightarrow> string list \<Rightarrow> nat \<Rightarrow> Stmt \<Rightarrow> Stmt" where
  "bind_values importToExistingTable nullValues data i stmt =
     (if i < length data
      then bind_values importToExistingTable nullValues data (i + 1)
             (if importToExistingTable \<and> data ! i = [] \<and> length nullValues > i
              then (case nullValues ! i of
                      Some val \<Rightarrow> sqlite3_bind_text stmt (i + 1) val
                    | None \<Rightarrow> stmt)
              else sqlite3_bind_text stmt (i + 1) (data ! i))
      else stmt)"
  by pat_completeness auto
termination
  by (relation "measure (\<lambda>(e, nullValues, data, i, stmt). length data - i)") auto

declare bind_values.simps [simp del]

text \<open>What the row function of \<^verbatim>\<open>importCsv\<close> captures by reference and changes.\<close>

record RowState =
  stmt :: Stmt
  db :: DBBrowserDB
  lastRowNum :: nat

text \<open>Lines 475 to 521: the row function of the import.\<close>

definition importRow :: "World \<Rightarrow> bool \<Rightarrow> bool \<Rightarrow> string option list
    \<Rightarrow> nat \<Rightarrow> string list \<Rightarrow> RowState \<Rightarrow> bool \<times> RowState" where
  "importRow w header importToExistingTable nullValues rowNum data s =
     (let s1 = s\<lparr>lastRowNum := rowNum\<rparr>
      in if rowNum = 0 \<and> header then (True, s1)
         else (let bound = bind_values importToExistingTable nullValues data 0 (stmt s1);
                   (done, db') = sqlite3_step w bound (db s1)
               in if \<not> done then (False, s1\<lparr>stmt := bound, db := db'\<rparr>)
                  else (True, s1\<lparr>stmt := sqlite3_clear_bindings bound, db := db'\<rparr>)))"

text \<open>
  \<^verbatim>\<open>importCsv\<close> returns nothing; the model returns the dialog afterwards together
  with the \<^verbatim>\<open>return\<close> statement it left by.
\<close>

datatype Exit =
    NothingToImport
  | ColumnMismatch
  | Declined
  | SavepointFailed
  | CreateTableFailed
  | Cancelled
  | InsertFailed
  | Imported

text \<open>Lines 432 to 546: from the savepoint to the end.\<close>

definition importData :: "World \<Rightarrow> string \<Rightarrow> string \<Rightarrow> Field list \<Rightarrow> bool \<Rightarrow> Dialog \<Rightarrow> Exit \<times> Dialog" where
  "importData w fileName tableName fieldList importToExistingTable d =
     (let restorepointName = generateSavepointName w (pdb d) ''csvimport'';
          (saved, db1) = setSavepoint w restorepointName (pdb d)
      in if \<not> saved
         then (SavepointFailed,
               rollback (d\<lparr>pdb := db1\<rparr>) restorepointName 0
                 (''Creating restore point failed: '' @ lastError db1))
         else
           (let (created, db2) =
                  (if \<not> importToExistingTable then createTable w tableName fieldList db1
                   else (True, db1))
            in if \<not> created
               then (CreateTableFailed,
                     rollback (d\<lparr>pdb := db2\<rparr>) restorepointName 0
                       (''Creating the table failed: '' @ lastError db2))
               else
                 (let nullValues = (if importToExistingTable then nullValuesOf db2 tableName else []);
                      sQuery = insertQuery w tableName (length fieldList);
                      prepared = sqlite3_prepare_v2 sQuery tableName (length fieldList);
                      (result, s) =
                        parseCSV w fileName
                          (importRow w (checkboxHeader d) importToExistingTable nullValues) (- 1)
                          \<lparr>stmt = prepared, db = db2, lastRowNum = 0\<rparr>
                  in if result \<noteq> ParserResultSuccess
                     then (if result = ParserResultCancelled
                           then (Cancelled, rollback (d\<lparr>pdb := db s\<rparr>) restorepointName 0 [])
                           else (InsertFailed,
                                 rollback (d\<lparr>pdb := db s\<rparr>) restorepointName (lastRowNum s)
                                   (''Inserting row failed: '' @ lastError (db s))))
                     else (Imported, d\<lparr>pdb := db s\<rparr>))))"

text \<open>
  \<^verbatim>\<open>ImportCsvDialog::importCsv\<close>, lines 382 to 430, continued by \<open>importData\<close>. When a
  table of the name exists with a matching column count, both assignments of lines
  422 to 426 set \<^verbatim>\<open>importToExistingTable\<close> to true and the answer no to the question
  box returns: a run that goes on has the flag true. An object of the name that is
  not a table is treated like no object.
\<close>

definition columnMismatchText :: string where
  "columnMismatchText = ''There is already a table of that name and an import into an existing table is only possible if the number of columns match.''"

definition importCsv :: "World \<Rightarrow> string \<Rightarrow> string \<Rightarrow> Dialog \<Rightarrow> Exit \<times> Dialog" where
  "importCsv w fileName nm d =
     (let tableName = tableNameFor w d fileName nm;
          fieldList = generateFieldList w d fileName
      in if length fieldList = 0 then (NothingToImport, d)
         else (case getObjectByName (pdb d) tableName of
                 Some (TableObject tbl) \<Rightarrow>
                   if length (tfields tbl) \<noteq> length fieldList
                   then (ColumnMismatch, d\<lparr>warnings := warnings d @ [columnMismatchText]\<rparr>)
                   else if answerYes w
                        then importData w fileName tableName fieldList True d
                        else (Declined, d)
               | _ \<Rightarrow> importData w fileName tableName fieldList False d))"

subsection \<open>Notions used to state the properties\<close>

text \<open>
  The records that the parser hands to a row function when no row is rejected: those
  before the first failure of the source. Under the row limit of
  \<^verbatim>\<open>generateFieldList\<close> the sample window is the first 20 of them.
\<close>

fun delivered :: "chunk list \<Rightarrow> string list list" where
  "delivered [] = []"
| "delivered (Record r # cs) = r # delivered cs"
| "delivered (Progress continue # cs) = delivered cs"
| "delivered (SourceError # cs) = []"

definition sampled :: "World \<Rightarrow> string \<Rightarrow> string list list" where
  "sampled w fileName = take 20 (delivered (files w fileName))"

text \<open>The field with the synthesized name of the column at 0-based position \<open>i\<close>.\<close>

definition synthesized :: "nat \<Rightarrow> Field" where
  "synthesized i = new_Field (''field'' @ number (i + 1)) []"

text \<open>The row function of \<^verbatim>\<open>generateFieldList\<close> run over a list of rows, the first with index \<open>rowNum\<close>.\<close>

fun infer_rows :: "bool \<Rightarrow> nat \<Rightarrow> string list list \<Rightarrow> Field list \<Rightarrow> Field list" where
  "infer_rows header rowNum [] fieldList = fieldList"
| "infer_rows header rowNum (data # rs) fieldList =
     infer_rows header (Suc rowNum) rs (snd (fieldListRow header rowNum data fieldList))"


text \<open>
  The row function returns true for every record of the chunks, called as the parser
  calls it (with the row index and with the state that the records before have
  left), and the source does not fail among them: the parser gets through these
  chunks unless the progress sink stops it.
\<close>

fun accepted :: "(nat \<Rightarrow> string list \<Rightarrow> 's \<Rightarrow> bool \<times> 's) \<Rightarrow> chunk list \<Rightarrow> nat \<Rightarrow> 's \<Rightarrow> bool" where
  "accepted rowFunction [] parsedRows s = True"
| "accepted rowFunction (Record r # cs) parsedRows s =
     (fst (rowFunction parsedRows r s) \<and>
      accepted rowFunction cs (Suc parsedRows) (snd (rowFunction parsedRows r s)))"
| "accepted rowFunction (Progress continue # cs) parsedRows s = accepted rowFunction cs parsedRows s"
| "accepted rowFunction (SourceError # cs) parsedRows s = False"

subsection \<open>Example inputs\<close>

text \<open>
  A world in which no call into the store fails, the parser answers a rejected row
  with \<^term>\<open>ParserResultError\<close>, the user answers yes and savepoint names are
  numbered; its files are given by name.
\<close>

definition exampleWorld :: "(string \<times> chunk list) list \<Rightarrow> World" where
  "exampleWorld fs =
     \<lparr>setSavepointError = (\<lambda>db0 pointname. None),
      createTableError = (\<lambda>db0 n structure. None),
      stepError = (\<lambda>db0 n vals. None),
      files = (\<lambda>fileName. case map_of fs fileName of Some cs \<Rightarrow> cs | None \<Rightarrow> []),
      baseName = takeWhile (\<lambda>c. c \<noteq> CHR ''.''),
      escapeIdentifier = (\<lambda>s. [CHR 0x60] @ s @ [CHR 0x60]),
      rowRejected = ParserResultError,
      answerYes = True,
      generateSavepointName = (\<lambda>db0 s. s @ number (length (savepoints db0)))\<rparr>"

definition emptyStore :: DBBrowserDB where
  "emptyStore = \<lparr>objects = [], savepoints = [], lastError = [], calls = []\<rparr>"

text \<open>A store with the table \<open>t (id INTEGER NOT NULL, name TEXT)\<close> holding one row.\<close>

definition peopleStore :: DBBrowserDB where
  "peopleStore =
     \<lparr>objects = [(''t'', TableObject
         \<lparr>tfields = [\<lparr>name = ''id'', type = ''INTEGER'', notnull = True, isInteger = True\<rparr>,
                     \<lparr>name = ''name'', type = ''TEXT'', notnull = False, isInteger = False\<rparr>],
          rows = [[Some ''7'', Some ''Ann'']]\<rparr>)],
      savepoints = [], lastError = [], calls = []\<rparr>"

text \<open>An insert fails when its first value is already in the first column of the table.\<close>

definition uniqueFirstColumn :: "DBBrowserDB \<Rightarrow> string \<Rightarrow> string option list \<Rightarrow> string option" where
  "uniqueFirstColumn db0 n vals =
     (case getObjectByName db0 n of
        Some (TableObject t) \<Rightarrow>
          if take 1 vals \<in> set (map (take 1) (rows t)) then Some ''UNIQUE constraint failed: t.id''
          else None
      | _ \<Rightarrow> Some ''no such table: t'')"

text \<open>
  The dialog as its constructor and \<^verbatim>\<open>selectFiles\<close> leave it: every file checked, the
  first one current, the table name \<open>t\<close> entered.
\<close>

definition exampleDialog :: "bool \<Rightarrow> string list \<Rightarrow> DBBrowserDB \<Rightarrow> Dialog" where
  "exampleDialog header fileNames store =
     \<lparr>csvFilenames = fileNames, checkboxHeader = header, checkBoxSeparateTables = False,
      editName = ''t'', filePickerBlockVisible = (length fileNames > 1),
      filePicker = map (\<lambda>f. \<lparr>displayText = f, userData = takeWhile (\<lambda>c. c \<noteq> CHR ''.'') f,
                              checkState = Checked, background = NoColour\<rparr>) fileNames,
      currentItem = Some 0, matchSimilarEnabled = True, okEnabled = True,
      pdb = store, warnings = []\<rparr>"

definition headerFile :: "chunk list" where
  "headerFile = [Record [''first name'', [], ''c;d''], Progress True, Record [''1'', ''2'', ''3'', ''4'']]"

section \<open>Properties\<close>

subsection \<open>Numerals\<close>

lemma digit_code:
  assumes "d < 10"
  shows "of_char (digit d) = 48 + d"
proof -
  have "d \<in> set [0..<10]" using assms by simp
  also have "[0..<10] = [0, 1, 2, 3, 4, 5, 6, 7, 8, 9 :: nat]" by code_simp
  finally have "d = 0 \<or> d = 1 \<or> d = 2 \<or> d = 3 \<or> d = 4 \<or> d = 5 \<or> d = 6 \<or> d = 7 \<or> d = 8 \<or> d = 9"
    by simp
  then show ?thesis by (auto simp: digit_def)
qed

text \<open>\<open>number n\<close> is the decimal numeral of \<open>n\<close>: reading it back gives \<open>n\<close>.\<close>

lemma number_decimal: "foldl (\<lambda>a c. 10 * a + (of_char c - 48)) 0 (number n) = n"
proof (induction n rule: number.induct)
  case (1 n)
  show ?case
  proof (cases "n < 10")
    case True
    then show ?thesis by (subst number.simps) (simp add: digit_code)
  next
    case False
    then show ?thesis
      using "1" by (subst number.simps) (simp add: digit_code)
  qed
qed

subsection \<open>Schema inference\<close>

lemma remove_invalid_filter:
  "remove_invalid s =
     filter (\<lambda>c. c \<notin> {CHR 0x60, CHR '' '', CHR 0x22, CHR 0x27, CHR '','', CHR '';''}) s"
  unfolding remove_invalid_def replace_empty_def filter_filter
  by (rule filter_cong) auto

lemma add_fields_eq:
  "add_fields header rowNum data i fieldList =
     fieldList @ map (\<lambda>j. new_Field (fieldname header rowNum data j) []) [i..<length data]"
proof (induction header rowNum data i fieldList rule: add_fields.induct)
  case (1 header rowNum data i fieldList)
  show ?case
  proof (cases "i < length data")
    case True
    then show ?thesis
      using "1" by (subst add_fields.simps) (simp add: upt_conv_Cons)
  next
    case False
    then show ?thesis by (subst add_fields.simps) simp
  qed
qed

lemma fieldListRow_eq:
  "snd (fieldListRow header rowNum data fieldList) =
     fieldList @ map (\<lambda>j. new_Field (fieldname header rowNum data j) []) [length fieldList..<length data]"
  by (simp add: fieldListRow_def add_fields_eq)

lemma fieldListRow_continue: "fst (fieldListRow header rowNum data fieldList) = True"
  by (simp add: fieldListRow_def)

lemma fieldname_later: "0 < rowNum \<Longrightarrow> new_Field (fieldname header rowNum data j) [] = synthesized j"
  by (simp add: fieldname_def synthesized_def)

lemma fold_max_ge: "(a::nat) \<le> fold max xs a"
proof (induction xs arbitrary: a)
  case Nil
  show ?case by simp
next
  case (Cons x xs)
  have "a \<le> max x a" by simp
  also have "\<dots> \<le> fold max xs (max x a)" by (rule Cons.IH)
  finally show ?case by simp
qed

lemma map_upt_split:
  "a \<le> b \<Longrightarrow> b \<le> c \<Longrightarrow> map f [a..<b] @ map f [b..<c] = map f [a..<(c::nat)]"
  by (metis le_Suc_ex map_append upt_add_eq_append)

text \<open>Rows after the first only add synthesized names, up to the widest of them.\<close>

lemma infer_rows_later:
  "0 < rowNum \<Longrightarrow>
   infer_rows header rowNum rs fieldList =
     fieldList @ map synthesized [length fieldList..<fold max (map length rs) (length fieldList)]"
proof (induction rs arbitrary: rowNum fieldList)
  case Nil
  show ?case by simp
next
  case (Cons data rs)
  let ?a = "length fieldList"
  let ?b = "max (length data) ?a"
  have row: "snd (fieldListRow header rowNum data fieldList) = fieldList @ map synthesized [?a..<?b]"
  proof (cases "?a \<le> length data")
    case True
    then have "?b = length data" by simp
    then show ?thesis using Cons.prems by (simp add: fieldListRow_eq fieldname_later)
  next
    case False
    then show ?thesis by (simp add: fieldListRow_eq)
  qed
  have len: "length (fieldList @ map synthesized [?a..<?b]) = ?b" by simp
  have "infer_rows header rowNum (data # rs) fieldList =
          infer_rows header (Suc rowNum) rs (fieldList @ map synthesized [?a..<?b])"
    by (simp add: row)
  also have "\<dots> = (fieldList @ map synthesized [?a..<?b]) @
                    map synthesized [?b..<fold max (map length rs) ?b]"
    using Cons.IH [of "Suc rowNum" "fieldList @ map synthesized [?a..<?b]"] len by simp
  also have "\<dots> = fieldList @ map synthesized [?a..<fold max (map length rs) ?b]"
    using map_upt_split [of ?a ?b "fold max (map length rs) ?b" synthesized]
      fold_max_ge [of ?b "map length rs"]
    by simp
  finally show ?case by simp
qed

text \<open>The parser under the row limit 20 runs the row function over the sample window.\<close>

lemma parse_fieldListRow:
  "snd (parse (fieldListRow header) rej False 20 cs n fieldList) =
     infer_rows header n (take (20 - n) (delivered cs)) fieldList"
proof (induction cs arbitrary: n fieldList)
  case Nil
  show ?case by simp
next
  case (Cons c cs)
  show ?case
  proof (cases "20 \<le> n")
    case True
    then show ?thesis by simp
  next
    case False
    then have n: "n < 20" by simp
    show ?thesis
    proof (cases c)
      case (Record r)
      from n have "20 - n = Suc (20 - Suc n)" by simp
      then have t: "take (20 - n) (r # delivered cs) = r # take (20 - Suc n) (delivered cs)"
        by (simp only: take_Suc_Cons)
      show ?thesis using n Record Cons.IH [of "Suc n"] t
        by (simp add: case_prod_unfold fieldListRow_continue)
    next
      case (Progress continue)
      then show ?thesis using n Cons.IH [of n] by simp
    next
      case SourceError
      then show ?thesis using n by simp
    qed
  qed
qed

lemma generateFieldList_rows:
  "generateFieldList w d fileName =
     (case sampled w fileName of
        [] \<Rightarrow> []
      | row0 # later \<Rightarrow>
          map (\<lambda>j. new_Field (fieldname (checkboxHeader d) 0 row0 j) []) [0..<length row0] @
          map synthesized [length row0..<fold max (map length later) (length row0)])"
  by (simp add: generateFieldList_def parseCSV_def parse_fieldListRow sampled_def
      fieldListRow_eq infer_rows_later split: list.split)

lemma length_generateFieldList:
  "length (generateFieldList w d fileName) = Max (insert 0 (length ` set (sampled w fileName)))"
proof (cases "sampled w fileName")
  case Nil
  then show ?thesis by (simp add: generateFieldList_rows)
next
  case (Cons row0 later)
  have "length (generateFieldList w d fileName) = fold max (map length later) (length row0)"
    using Cons fold_max_ge [of "length row0" "map length later"]
    by (simp add: generateFieldList_rows)
  also have "\<dots> = Max (length ` set (row0 # later))"
    using Max.set_eq_fold [of "length row0" "map length later"] by simp
  also have "\<dots> = Max (insert 0 (length ` set (row0 # later)))"
    by (simp add: max_def)
  finally show ?thesis using Cons by simp
qed

lemma nth_generateFieldList:
  assumes rows: "sampled w fileName = row0 # later"
    and i: "i < length (generateFieldList w d fileName)"
  shows "generateFieldList w d fileName ! i =
           (if i < length row0 then new_Field (fieldname (checkboxHeader d) 0 row0 i) []
            else synthesized i)"
proof -
  let ?m = "fold max (map length later) (length row0)"
  have le: "length row0 \<le> ?m" by (rule fold_max_ge)
  have fl: "generateFieldList w d fileName =
          map (\<lambda>j. new_Field (fieldname (checkboxHeader d) 0 row0 j) []) [0..<length row0] @
          map synthesized [length row0..<?m]"
    using rows by (simp add: generateFieldList_rows)
  from i le have im: "i < ?m" by (simp add: fl)
  show ?thesis
  proof (cases "i < length row0")
    case True
    then show ?thesis by (simp add: fl nth_append)
  next
    case False
    with im show ?thesis by (simp add: fl nth_append)
  qed
qed

text \<open>
  C8. In the field list that schema inference returns, the column at 0-based position
  \<open>i\<close> is named as follows. When the first row is used as header, the column is
  present in row 0 and the value there, with every backtick, space, double quote,
  single quote, comma and semicolon removed, is not empty, the name is that stripped
  value. In every other case (no header row, a column that row 0 does not have, or
  nothing left after stripping) the name is \<open>field\<close> followed by the decimal numeral
  of \<open>i + 1\<close>.
\<close>

theorem generated_field_names:
  assumes "sampled w fileName = row0 # later"
    and "i < length (generateFieldList w d fileName)"
  shows "name (generateFieldList w d fileName ! i) =
           (if checkboxHeader d \<and> i < length row0 \<and>
               filter (\<lambda>c. c \<notin> {CHR 0x60, CHR '' '', CHR 0x22, CHR 0x27, CHR '','', CHR '';''}) (row0 ! i) \<noteq> []
            then filter (\<lambda>c. c \<notin> {CHR 0x60, CHR '' '', CHR 0x22, CHR 0x27, CHR '','', CHR '';''}) (row0 ! i)
            else ''field'' @ number (i + 1))"
  using nth_generateFieldList [OF assms]
  by (simp add: fieldname_def new_Field_def synthesized_def remove_invalid_filter Let_def)

theorem generated_field_names_witness:
  "sampled (exampleWorld [(''s.csv'', headerFile)]) ''s.csv'' =
     [''first name'', [], ''c;d''] # [[''1'', ''2'', ''3'', ''4'']] \<and>
   1 < length (generateFieldList (exampleWorld [(''s.csv'', headerFile)])
                 (exampleDialog True [''s.csv''] emptyStore) ''s.csv'') \<and>
   name (generateFieldList (exampleWorld [(''s.csv'', headerFile)])
           (exampleDialog True [''s.csv''] emptyStore) ''s.csv'' ! 0) = ''firstname'' \<and>
   name (generateFieldList (exampleWorld [(''s.csv'', headerFile)])
           (exampleDialog True [''s.csv''] emptyStore) ''s.csv'' ! 1) = ''field2''"
proof -
  let ?w = "exampleWorld [(''s.csv'', headerFile)]"
  let ?d = "exampleDialog True [''s.csv''] emptyStore"
  have rows: "sampled ?w ''s.csv'' = [''first name'', [], ''c;d''] # [[''1'', ''2'', ''3'', ''4'']]"
    by code_simp
  have wide: "1 < length (generateFieldList ?w ?d ''s.csv'')"
    by code_simp
  then have first: "0 < length (generateFieldList ?w ?d ''s.csv'')" by linarith
  have hdr: "checkboxHeader ?d" by (simp add: exampleDialog_def)
  have two: "number (Suc (Suc 0)) = ''2''" by code_simp
  show ?thesis
    using generated_field_names [OF rows first] generated_field_names [OF rows wide]
      rows wide hdr two
    by simp
qed

text \<open>
  C9. One call of the row function of schema inference never shortens the field list,
  and the field list that schema inference returns is as long as the widest row of
  the sample window (0 when the window is empty).
\<close>

theorem fieldList_length_widest:
  "length fieldList \<le> length (snd (fieldListRow header rowNum data fieldList)) \<and>
   length (generateFieldList w d fileName) = Max (insert 0 (length ` set (sampled w fileName)))"
  by (simp add: fieldListRow_eq length_generateFieldList)

text \<open>
  C10. A column that row 0 of the sample window does not have, and that a later, wider
  row adds, is named \<open>field\<close> followed by the decimal numeral of its 1-based
  position, whether or not the first row is used as header: no value of the later
  row becomes a name.
\<close>

theorem later_columns_synthesized:
  assumes "sampled w fileName = row0 # later"
    and "length row0 \<le> i"
    and "i < length (generateFieldList w d fileName)"
  shows "name (generateFieldList w d fileName ! i) = ''field'' @ number (i + 1)"
  using nth_generateFieldList [OF assms(1) assms(3)] assms(2)
  by (simp add: new_Field_def synthesized_def)

theorem later_columns_synthesized_witness:
  "sampled (exampleWorld [(''s.csv'', headerFile)]) ''s.csv'' =
     [''first name'', [], ''c;d''] # [[''1'', ''2'', ''3'', ''4'']] \<and>
   length [''first name'', [], ''c;d''] \<le> 3 \<and>
   3 < length (generateFieldList (exampleWorld [(''s.csv'', headerFile)])
                 (exampleDialog True [''s.csv''] emptyStore) ''s.csv'') \<and>
   name (generateFieldList (exampleWorld [(''s.csv'', headerFile)])
           (exampleDialog True [''s.csv''] emptyStore) ''s.csv'' ! 3) = ''field4''"
proof -
  let ?w = "exampleWorld [(''s.csv'', headerFile)]"
  let ?d = "exampleDialog True [''s.csv''] emptyStore"
  have rows: "sampled ?w ''s.csv'' = [''first name'', [], ''c;d''] # [[''1'', ''2'', ''3'', ''4'']]"
    by code_simp
  have narrow: "length [''first name'', [], ''c;d''] \<le> 3" by simp
  have wide: "3 < length (generateFieldList ?w ?d ''s.csv'')"
    by code_simp
  have four: "number 4 = ''4''" by code_simp
  show ?thesis
    using later_columns_synthesized [OF rows narrow wide] rows wide four
    by simp
qed

subsection \<open>Header matching\<close>

lemma std_equal_names: "length xs = length ys \<Longrightarrow> std_equal xs ys = (map name xs = map name ys)"
  by (induction xs ys rule: list_induct2) auto

text \<open>
  C6. The header comparison of \<^verbatim>\<open>matchSimilar\<close> is true exactly when the two field
  lists have the same length and the same names in the same order (equality of
  strings, so case matters); nothing but the names is read, and the comparison is
  symmetric.
\<close>

theorem matchingHeader_names:
  "matchingHeader reference candidate =
     (length reference = length candidate \<and> map name reference = map name candidate) \<and>
   matchingHeader reference candidate = matchingHeader candidate reference"
  by (auto simp: matchingHeader_def std_equal_names)

text \<open>
  C7. The claim fails on the code. With the reference file's header \<open>[a, b]\<close> and a
  candidate's header \<open>[a, c]\<close> the comparison is false, but \<^verbatim>\<open>matchSimilar\<close> unchecks
  an item only in the branch for differing counts: the candidate, checked before,
  is still checked afterwards.
\<close>

theorem matchSimilar_same_count_stays_checked:
  "map_option (\<lambda>d. map checkState (filePicker d))
     (matchSimilar (exampleWorld [(''1.csv'', [Record [''a'', ''b'']]), (''2.csv'', [Record [''a'', ''c'']])])
        (exampleDialog True [''1.csv'', ''2.csv''] emptyStore)) = Some [Checked, Checked] \<and>
   map name (generateFieldList
      (exampleWorld [(''1.csv'', [Record [''a'', ''b'']]), (''2.csv'', [Record [''a'', ''c'']])])
      (exampleDialog True [''1.csv'', ''2.csv''] emptyStore) ''2.csv'') = [''a'', ''c''] \<and>
   \<not> matchingHeader
      (generateFieldList (exampleWorld [(''1.csv'', [Record [''a'', ''b'']]), (''2.csv'', [Record [''a'', ''c'']])])
         (exampleDialog True [''1.csv'', ''2.csv''] emptyStore) ''1.csv'')
      (generateFieldList (exampleWorld [(''1.csv'', [Record [''a'', ''b'']]), (''2.csv'', [Record [''a'', ''c'']])])
         (exampleDialog True [''1.csv'', ''2.csv''] emptyStore) ''2.csv'')"
  by code_simp


subsection \<open>The store's calls\<close>

lemma setSavepoint_ok:
  "setSavepoint w sp db0 = (True, db1) \<Longrightarrow>
     savepoints db1 = (sp, objects db0) # savepoints db0 \<and> objects db1 = objects db0 \<and>
     calls db1 = calls db0 @ [SetSavepoint sp]"
  by (auto simp: setSavepoint_def split: option.splits)

lemma setSavepoint_failed:
  "setSavepoint w sp db0 = (False, db1) \<Longrightarrow> calls db1 = calls db0 @ [SetSavepoint sp]"
  by (auto simp: setSavepoint_def split: option.splits)

lemma createTable_ok:
  "createTable w n fl db1 = (True, db2) \<Longrightarrow>
     savepoints db2 = savepoints db1 \<and> calls db2 = calls db1 @ [CreateTable n fl]"
  by (auto simp: createTable_def split: option.splits)

lemma createTable_failed:
  "createTable w n fl db1 = (False, db2) \<Longrightarrow> calls db2 = calls db1 @ [CreateTable n fl]"
  by (auto simp: createTable_def split: option.splits)

lemma savepoints_sqlite3_step: "savepoints (snd (sqlite3_step w st db0)) = savepoints db0"
  by (simp add: sqlite3_step_def split: option.splits)


lemma revertToSavepoint_top:
  "savepoints db0 = (sp, objs) # older \<Longrightarrow>
     revertToSavepoint sp db0 =
       db0\<lparr>calls := calls db0 @ [RevertToSavepoint sp], objects := objs, savepoints := older\<rparr>"
  by (simp add: revertToSavepoint_def)

lemma calls_revertToSavepoint:
  "calls (revertToSavepoint sp db0) = calls db0 @ [RevertToSavepoint sp]"
  by (simp add: revertToSavepoint_def Let_def split: list.splits)

lemma lastError_revertToSavepoint: "lastError (revertToSavepoint sp db0) = lastError db0"
  by (simp add: revertToSavepoint_def Let_def split: list.splits)

lemma rollback_simps:
  "warnings (rollback d sp n msg) =
     (if msg = [] then warnings d
      else warnings d @ [''Error importing data'' @
             (if n \<noteq> 0 then '' from record number '' @ number n else []) @
             ''.'' @ [CHR ''\<newline>''] @ msg])"
  "pdb (rollback d sp n msg) = revertToSavepoint sp (pdb d)"
  by (simp_all add: rollback_def Let_def)

subsection \<open>Binding one row\<close>

lemma sqlite3_bind_text_frame:
  "length (bindings (sqlite3_bind_text st idx v)) = length (bindings st)"
  "into (sqlite3_bind_text st idx v) = into st"
  by (simp_all add: sqlite3_bind_text_def)


lemma bind_values_frame:
  "length (bindings (bind_values e nullValues data i st)) = length (bindings st) \<and>
   into (bind_values e nullValues data i st) = into st"
proof (induction e nullValues data i st rule: bind_values.induct)
  case (1 e nullValues data i st)
  show ?case
  proof (cases "i < length data")
    case True
    then show ?thesis
      using "1" by (subst (1 2) bind_values.simps) (simp add: sqlite3_bind_text_frame split: option.splits)
  next
    case False
    then show ?thesis by (subst (1 2) bind_values.simps) simp
  qed
qed





subsection \<open>The row loop\<close>

lemma savepoints_importRow:
  "savepoints (db (snd (importRow w header e nullValues rowNum data s))) = savepoints (db s)"
  by (simp add: importRow_def Let_def case_prod_unfold savepoints_sqlite3_step)

text \<open>The row loop leaves the open savepoints as they are.\<close>

lemma savepoints_parse_importRow:
  "savepoints (db (snd (parse (importRow w header e nullValues) rej sink nMax cs n s))) =
     savepoints (db s)"
proof (induction cs arbitrary: n s)
  case Nil
  show ?case by simp
next
  case (Cons c cs)
  show ?case
  proof (cases c)
    case (Record r)
    then show ?thesis
      using Cons.IH [of "Suc n" "snd (importRow w header e nullValues n r s)"]
      by (simp add: case_prod_unfold Let_def savepoints_importRow)
  next
    case (Progress continue)
    then show ?thesis using Cons.IH [of n s] by simp
  next
    case SourceError
    then show ?thesis by simp
  qed
qed



lemma parse_cancel:
  "accepted f pre k s \<Longrightarrow>
     fst (parse f rej True (- 1) (pre @ Progress False # rest) k s) = ParserResultCancelled"
proof (induction pre arbitrary: k s)
  case Nil
  show ?case by simp
next
  case (Cons c pre)
  show ?case
  proof (cases c)
    case (Record r)
    with Cons.prems have "fst (f k r s)" and "accepted f pre (Suc k) (snd (f k r s))" by simp_all
    with Cons.IH [of "Suc k" "snd (f k r s)"] Record show ?thesis
      by (simp add: case_prod_unfold Let_def)
  next
    case (Progress continue)
    with Cons.prems Cons.IH [of k s] show ?thesis by simp
  next
    case SourceError
    with Cons.prems show ?thesis by simp
  qed
qed




text \<open>When no insert into the table fails and the source does not fail, every record is accepted.\<close>

lemma accepted_no_failure:
  assumes "\<forall>db0 vals. stepError w db0 (into (stmt s)) vals = None"
    and "SourceError \<notin> set pre"
  shows "accepted (importRow w header e nullValues) pre k s"
  using assms
proof (induction pre arbitrary: k s)
  case Nil
  show ?case by simp
next
  case (Cons c pre)
  show ?case
  proof (cases c)
    case (Record r)
    have i: "into (stmt (snd (importRow w header e nullValues k r s))) = into (stmt s)"
      by (simp add: importRow_def Let_def case_prod_unfold bind_values_frame sqlite3_clear_bindings_def)
    have ok: "fst (importRow w header e nullValues k r s)"
      using Cons.prems(1)
      by (simp add: importRow_def Let_def case_prod_unfold sqlite3_step_def bind_values_frame)
    from Cons.IH [of "snd (importRow w header e nullValues k r s)" "Suc k"] Cons.prems i ok Record
    show ?thesis by simp
  next
    case (Progress continue)
    with Cons show ?thesis by simp
  next
    case SourceError
    with Cons.prems show ?thesis by simp
  qed
qed

subsection \<open>The ways out of the import\<close>

lemma importData_cases [consumes 0, case_names SavepointFailed CreateTableFailed RowLoop]:
  fixes w fileName tableName fieldList e d
  defines "sp \<equiv> generateSavepointName w (pdb d) ''csvimport''"
  obtains
    db1 where "setSavepoint w sp (pdb d) = (False, db1)"
      and "importData w fileName tableName fieldList e d =
             (SavepointFailed, rollback (d\<lparr>pdb := db1\<rparr>) sp 0
                (''Creating restore point failed: '' @ lastError db1))"
  | db1 db2 where "setSavepoint w sp (pdb d) = (True, db1)" and "\<not> e"
      and "createTable w tableName fieldList db1 = (False, db2)"
      and "importData w fileName tableName fieldList e d =
             (CreateTableFailed, rollback (d\<lparr>pdb := db2\<rparr>) sp 0
                (''Creating the table failed: '' @ lastError db2))"
  | db1 db2 result s where "setSavepoint w sp (pdb d) = (True, db1)"
      and "if e then db2 = db1 else createTable w tableName fieldList db1 = (True, db2)"
      and "parseCSV w fileName
             (importRow w (checkboxHeader d) e (if e then nullValuesOf db2 tableName else [])) (- 1)
             \<lparr>stmt = sqlite3_prepare_v2 (insertQuery w tableName (length fieldList)) tableName (length fieldList),
              db = db2, lastRowNum = 0\<rparr> = (result, s)"
      and "importData w fileName tableName fieldList e d =
             (if result \<noteq> ParserResultSuccess
              then (if result = ParserResultCancelled
                    then (Cancelled, rollback (d\<lparr>pdb := db s\<rparr>) sp 0 [])
                    else (InsertFailed, rollback (d\<lparr>pdb := db s\<rparr>) sp (lastRowNum s)
                            (''Inserting row failed: '' @ lastError (db s))))
              else (Imported, d\<lparr>pdb := db s\<rparr>))"
proof -
  obtain saved db1 where sv: "setSavepoint w sp (pdb d) = (saved, db1)"
    by (cases "setSavepoint w sp (pdb d)")
  show thesis
  proof (cases saved)
    case False
    with sv show thesis
      by (intro that(1) [of db1]) (simp_all add: importData_def sp_def)
  next
    case saved: True
    obtain created db2 where cr:
      "(if \<not> e then createTable w tableName fieldList db1 else (True, db1)) = (created, db2)"
      by (cases "if \<not> e then createTable w tableName fieldList db1 else (True, db1)")
    show thesis
    proof (cases created)
      case False
      with cr have ne: "\<not> e" and "createTable w tableName fieldList db1 = (False, db2)"
        by (auto split: if_splits)
      with sv saved cr False show thesis
        by (intro that(2) [of db1 db2]) (simp_all add: importData_def sp_def)
    next
      case True
      let ?s0 = "\<lparr>stmt = sqlite3_prepare_v2 (insertQuery w tableName (length fieldList)) tableName (length fieldList),
              db = db2, lastRowNum = 0\<rparr>"
      let ?nv = "if e then nullValuesOf db2 tableName else []"
      obtain result s where pr:
        "parseCSV w fileName (importRow w (checkboxHeader d) e ?nv) (- 1) ?s0 = (result, s)"
        by (cases "parseCSV w fileName (importRow w (checkboxHeader d) e ?nv) (- 1) ?s0")
      from cr True have c2: "if e then db2 = db1 else createTable w tableName fieldList db1 = (True, db2)"
        by (auto split: if_splits)
      show thesis
      proof (rule that(3) [of db1 db2 result s])
        show "setSavepoint w sp (pdb d) = (True, db1)" using sv saved by simp
        show "if e then db2 = db1 else createTable w tableName fieldList db1 = (True, db2)" by (rule c2)
        show "parseCSV w fileName (importRow w (checkboxHeader d) e ?nv) (- 1) ?s0 = (result, s)" by (rule pr)
        show "importData w fileName tableName fieldList e d =
             (if result \<noteq> ParserResultSuccess
              then (if result = ParserResultCancelled
                    then (Cancelled, rollback (d\<lparr>pdb := db s\<rparr>) sp 0 [])
                    else (InsertFailed, rollback (d\<lparr>pdb := db s\<rparr>) sp (lastRowNum s)
                            (''Inserting row failed: '' @ lastError (db s))))
              else (Imported, d\<lparr>pdb := db s\<rparr>))"
          using sv saved cr True pr by (simp add: importData_def sp_def Let_def)
      qed
    qed
  qed
qed

text \<open>A rollback after the row loop restores the objects of the store.\<close>

lemma importData_rolled_back:
  assumes "importData w fileName tableName fieldList e d = (x, d')"
    and "x = Cancelled \<or> x = InsertFailed"
  shows "objects (pdb d') = objects (pdb d) \<and> savepoints (pdb d') = savepoints (pdb d) \<and>
         last (calls (pdb d')) = RevertToSavepoint (generateSavepointName w (pdb d) ''csvimport'') \<and>
         (x = Cancelled \<longrightarrow> warnings d' = warnings d)"
proof (cases rule: importData_cases [of w d fileName tableName fieldList e])
  case (SavepointFailed db1)
  with assms show ?thesis by auto
next
  case (CreateTableFailed db1 db2)
  with assms show ?thesis by auto
next
  case (RowLoop db1 db2 result s)
  let ?sp = "generateSavepointName w (pdb d) ''csvimport''"
  from RowLoop(1) have sp1: "savepoints db1 = (?sp, objects (pdb d)) # savepoints (pdb d)"
    using setSavepoint_ok by blast
  from RowLoop(2) have sp2: "savepoints db2 = savepoints db1"
    using createTable_ok [of w tableName fieldList db1 db2] by (auto split: if_splits)
  have "savepoints (db s) = savepoints db2"
    using RowLoop(3)
      savepoints_parse_importRow [of w "checkboxHeader d" e
        "if e then nullValuesOf db2 tableName else []" "rowRejected w" True "- 1" "files w fileName" 0
        "\<lparr>stmt = sqlite3_prepare_v2 (insertQuery w tableName (length fieldList)) tableName (length fieldList),
          db = db2, lastRowNum = 0\<rparr>"]
    by (simp add: parseCSV_def)
  with sp1 sp2 have top: "savepoints (db s) = (?sp, objects (pdb d)) # savepoints (pdb d)" by simp
  from assms RowLoop(4) have
    "d' = rollback (d\<lparr>pdb := db s\<rparr>) ?sp 0 [] \<and> x = Cancelled \<or>
     d' = rollback (d\<lparr>pdb := db s\<rparr>) ?sp (lastRowNum s) (''Inserting row failed: '' @ lastError (db s)) \<and>
       x = InsertFailed"
    by (auto split: if_splits)
  then show ?thesis
    using top by (auto simp: rollback_simps revertToSavepoint_top)
qed

text \<open>A run that passes the checks before the savepoint goes on with \<open>importData\<close>.\<close>

lemma importCsv_proceeds:
  assumes "generateFieldList w d fileName \<noteq> []"
    and "if e then (\<exists>tbl. getObjectByName (pdb d) (tableNameFor w d fileName nm) = Some (TableObject tbl) \<and>
                     length (tfields tbl) = length (generateFieldList w d fileName)) \<and> answerYes w
         else (\<forall>tbl. getObjectByName (pdb d) (tableNameFor w d fileName nm) \<noteq> Some (TableObject tbl))"
  shows "importCsv w fileName nm d =
           importData w fileName (tableNameFor w d fileName nm) (generateFieldList w d fileName) e d"
  using assms
  by (cases e) (auto simp: importCsv_def Let_def split: option.splits Object.splits)

lemma nullValuesOf_objects:
  "objects db1 = objects db0 \<Longrightarrow> nullValuesOf db1 tableName = nullValuesOf db0 tableName"
  by (simp add: nullValuesOf_def getObjectByName_def)

subsection \<open>The import\<close>

text \<open>
  C1. The claim fails on the code. \<^verbatim>\<open>importCsv\<close> passes the parser's 0-based row index
  \<open>lastRowNum\<close> to \<^verbatim>\<open>rollback\<close>, which leaves the record number out when it is zero.
  With the header box unchecked and an insert that fails at the first record of the
  file, the store is rolled back and the warning carries no record number; when the
  insert fails at the second record the warning says record number 1.
\<close>

theorem insert_failure_record_number:
  "importCsv ((exampleWorld [(''people.csv'', [Record [''7'', ''Bob'']])])\<lparr>stepError := uniqueFirstColumn\<rparr>)
      ''people.csv'' [] (exampleDialog False [''people.csv''] peopleStore) =
     (InsertFailed,
      (exampleDialog False [''people.csv''] peopleStore)
        \<lparr>pdb := peopleStore\<lparr>lastError := ''UNIQUE constraint failed: t.id'',
                  calls := [SetSavepoint ''csvimport0'', Step ''t'' [Some ''7'', Some ''Bob''],
                            RevertToSavepoint ''csvimport0'']\<rparr>,
         warnings := [''Error importing data.'' @ [CHR ''\<newline>''] @
                      ''Inserting row failed: UNIQUE constraint failed: t.id'']\<rparr>) \<and>
   warnings (snd (importCsv
      ((exampleWorld [(''people.csv'', [Record [''8'', ''Bob''], Record [''7'', ''Cy'']])])
         \<lparr>stepError := uniqueFirstColumn\<rparr>)
      ''people.csv'' [] (exampleDialog False [''people.csv''] peopleStore))) =
     [''Error importing data from record number 1.'' @ [CHR ''\<newline>''] @
      ''Inserting row failed: UNIQUE constraint failed: t.id'']"
  by code_simp

text \<open>
  C2, as the claim states it, fails: when the store rejects the savepoint the import
  still calls \<^verbatim>\<open>revertToSavepoint\<close>.
\<close>

theorem savepoint_failure_reverts:
  "fst (importCsv ((exampleWorld [(''1.csv'', [Record [''1'', ''2'']])])
          \<lparr>setSavepointError := (\<lambda>db0 n. Some ''database is locked'')\<rparr>)
        ''1.csv'' [] (exampleDialog False [''1.csv''] emptyStore)) = SavepointFailed \<and>
   calls (pdb (snd (importCsv ((exampleWorld [(''1.csv'', [Record [''1'', ''2'']])])
          \<lparr>setSavepointError := (\<lambda>db0 n. Some ''database is locked'')\<rparr>)
        ''1.csv'' [] (exampleDialog False [''1.csv''] emptyStore)))) =
     [SetSavepoint ''csvimport0'', RevertToSavepoint ''csvimport0'']"
  by code_simp

text \<open>
  C2, amended. Take a run that gets as far as the savepoint: the file has columns,
  and either a table of the target name exists with as many columns and the user
  agrees to import into it (\<open>e\<close>), or no table of that name exists. When
  \<^verbatim>\<open>setSavepoint\<close> returns false, or returns true and \<^verbatim>\<open>createTable\<close> then returns
  false, the import makes these calls into the store and no other: the savepoint,
  the table creation if the savepoint was set, and one \<^verbatim>\<open>revertToSavepoint\<close> for the
  name of that savepoint; no insert is executed. It shows one warning, without a
  record number, that ends with the store's error text of the failed call.
\<close>

theorem setup_failure_calls:
  fixes w d fileName nm e
  defines "tn \<equiv> tableNameFor w d fileName nm"
    and "fl \<equiv> generateFieldList w d fileName"
    and "sp \<equiv> generateSavepointName w (pdb d) ''csvimport''"
  defines "saved \<equiv> setSavepoint w sp (pdb d)"
  defines "created \<equiv> createTable w tn fl (snd saved)"
  assumes fields: "fl \<noteq> []"
    and target: "if e then (\<exists>tbl. getObjectByName (pdb d) tn = Some (TableObject tbl) \<and>
                              length (tfields tbl) = length fl) \<and> answerYes w
                 else (\<forall>tbl. getObjectByName (pdb d) tn \<noteq> Some (TableObject tbl))"
    and failure: "fst saved \<longrightarrow> \<not> e \<and> \<not> fst created"
  shows "fst (importCsv w fileName nm d) = (if fst saved then CreateTableFailed else SavepointFailed) \<and>
         calls (pdb (snd (importCsv w fileName nm d))) =
           calls (pdb d) @ [SetSavepoint sp] @ (if fst saved then [CreateTable tn fl] else []) @
           [RevertToSavepoint sp] \<and>
         warnings (snd (importCsv w fileName nm d)) =
           warnings d @ [''Error importing data.'' @ [CHR ''\<newline>''] @
             (if fst saved then ''Creating the table failed: '' @ lastError (snd created)
              else ''Creating restore point failed: '' @ lastError (snd saved))]"
proof -
  have run: "importCsv w fileName nm d = importData w fileName tn fl e d"
    using fields target unfolding tn_def fl_def by (rule importCsv_proceeds)
  show ?thesis
  proof (cases rule: importData_cases [of w d fileName tn fl e])
    case (SavepointFailed db1)
    from SavepointFailed(1) have s: "saved = (False, db1)" by (simp add: saved_def sp_def)
    from SavepointFailed(1) have "calls db1 = calls (pdb d) @ [SetSavepoint sp]"
      unfolding sp_def using setSavepoint_failed by blast
    then show ?thesis
      using SavepointFailed(2) s
      by (simp add: run sp_def rollback_simps calls_revertToSavepoint lastError_revertToSavepoint)
  next
    case (CreateTableFailed db1 db2)
    from CreateTableFailed(1) have s: "saved = (True, db1)" by (simp add: saved_def sp_def)
    with CreateTableFailed(3) have c: "created = (False, db2)" by (simp add: created_def)
    from CreateTableFailed(1) have "calls db1 = calls (pdb d) @ [SetSavepoint sp]"
      unfolding sp_def using setSavepoint_ok by blast
    moreover from CreateTableFailed(3) have "calls db2 = calls db1 @ [CreateTable tn fl]"
      using createTable_failed by blast
    ultimately show ?thesis
      using CreateTableFailed(4) s c
      by (simp add: run sp_def rollback_simps calls_revertToSavepoint lastError_revertToSavepoint)
  next
    case (RowLoop db1 db2 result s)
    from RowLoop(1) have s: "saved = (True, db1)" by (simp add: saved_def sp_def)
    with failure have "\<not> e" and "\<not> fst created" by simp_all
    with RowLoop(2) s show ?thesis by (simp add: created_def)
  qed
qed

theorem setup_failure_calls_witness:
  "generateFieldList ((exampleWorld [(''1.csv'', [Record [''1'', ''2'']])])
       \<lparr>setSavepointError := (\<lambda>db0 n. Some ''database is locked'')\<rparr>)
     (exampleDialog False [''1.csv''] emptyStore) ''1.csv'' \<noteq> [] \<and>
   \<not> fst (setSavepoint ((exampleWorld [(''1.csv'', [Record [''1'', ''2'']])])
              \<lparr>setSavepointError := (\<lambda>db0 n. Some ''database is locked'')\<rparr>)
            ''csvimport0'' emptyStore) \<and>
   fst (importCsv ((exampleWorld [(''1.csv'', [Record [''1'', ''2'']])])
          \<lparr>setSavepointError := (\<lambda>db0 n. Some ''database is locked'')\<rparr>)
        ''1.csv'' [] (exampleDialog False [''1.csv''] emptyStore)) = SavepointFailed \<and>
   calls (pdb (snd (importCsv ((exampleWorld [(''1.csv'', [Record [''1'', ''2'']])])
          \<lparr>setSavepointError := (\<lambda>db0 n. Some ''database is locked'')\<rparr>)
        ''1.csv'' [] (exampleDialog False [''1.csv''] emptyStore)))) =
     [SetSavepoint ''csvimport0'', RevertToSavepoint ''csvimport0''] \<and>
   warnings (snd (importCsv ((exampleWorld [(''1.csv'', [Record [''1'', ''2'']])])
          \<lparr>setSavepointError := (\<lambda>db0 n. Some ''database is locked'')\<rparr>)
        ''1.csv'' [] (exampleDialog False [''1.csv''] emptyStore))) =
     [''Error importing data.'' @ [CHR ''\<newline>''] @ ''Creating restore point failed: database is locked''] \<and>
   \<not> fst (createTable ((exampleWorld [(''1.csv'', [Record [''1'', ''2'']])])
              \<lparr>createTableError := (\<lambda>db0 n structure. Some ''disk full'')\<rparr>)
            ''t'' [new_Field ''field1'' [], new_Field ''field2'' []]
            (emptyStore\<lparr>savepoints := [(''csvimport0'', [])], calls := [SetSavepoint ''csvimport0'']\<rparr>)) \<and>
   fst (importCsv ((exampleWorld [(''1.csv'', [Record [''1'', ''2'']])])
          \<lparr>createTableError := (\<lambda>db0 n structure. Some ''disk full'')\<rparr>)
        ''1.csv'' [] (exampleDialog False [''1.csv''] emptyStore)) = CreateTableFailed \<and>
   calls (pdb (snd (importCsv ((exampleWorld [(''1.csv'', [Record [''1'', ''2'']])])
          \<lparr>createTableError := (\<lambda>db0 n structure. Some ''disk full'')\<rparr>)
        ''1.csv'' [] (exampleDialog False [''1.csv''] emptyStore)))) =
     [SetSavepoint ''csvimport0'',
      CreateTable ''t'' [new_Field ''field1'' [], new_Field ''field2'' []],
      RevertToSavepoint ''csvimport0''] \<and>
   warnings (snd (importCsv ((exampleWorld [(''1.csv'', [Record [''1'', ''2'']])])
          \<lparr>createTableError := (\<lambda>db0 n structure. Some ''disk full'')\<rparr>)
        ''1.csv'' [] (exampleDialog False [''1.csv''] emptyStore))) =
     [''Error importing data.'' @ [CHR ''\<newline>''] @ ''Creating the table failed: disk full'']"
proof -
  let ?w1 = "(exampleWorld [(''1.csv'', [Record [''1'', ''2'']])])
               \<lparr>setSavepointError := (\<lambda>db0 n. Some ''database is locked'')\<rparr>"
  let ?w2 = "(exampleWorld [(''1.csv'', [Record [''1'', ''2'']])])
               \<lparr>createTableError := (\<lambda>db0 n structure. Some ''disk full'')\<rparr>"
  let ?d = "exampleDialog False [''1.csv''] emptyStore"
  let ?fl = "[new_Field ''field1'' [], new_Field ''field2'' []]"
  let ?db1 = "emptyStore\<lparr>savepoints := [(''csvimport0'', [])], calls := [SetSavepoint ''csvimport0'']\<rparr>"
  have d0: "pdb ?d = emptyStore" "calls emptyStore = []" "warnings ?d = []"
    by (simp_all add: exampleDialog_def emptyStore_def)
  have f1: "generateFieldList ?w1 ?d ''1.csv'' = ?fl" by code_simp
  have f2: "generateFieldList ?w2 ?d ''1.csv'' = ?fl" by code_simp
  have t1: "tableNameFor ?w1 ?d ''1.csv'' [] = ''t''" by code_simp
  have t2: "tableNameFor ?w2 ?d ''1.csv'' [] = ''t''" by code_simp
  have n1: "generateSavepointName ?w1 emptyStore ''csvimport'' = ''csvimport0''" by code_simp
  have n2: "generateSavepointName ?w2 emptyStore ''csvimport'' = ''csvimport0''" by code_simp
  have o: "getObjectByName emptyStore ''t'' = None" by code_simp
  have s1: "\<not> fst (setSavepoint ?w1 ''csvimport0'' emptyStore)" by code_simp
  have e1: "lastError (snd (setSavepoint ?w1 ''csvimport0'' emptyStore)) = ''database is locked''"
    by code_simp
  have s2: "setSavepoint ?w2 ''csvimport0'' emptyStore = (True, ?db1)" by code_simp
  have c2: "\<not> fst (createTable ?w2 ''t'' ?fl ?db1)" by code_simp
  have e2: "lastError (snd (createTable ?w2 ''t'' ?fl ?db1)) = ''disk full''" by code_simp
  have fields1: "generateFieldList ?w1 ?d ''1.csv'' \<noteq> []" by (simp add: f1)
  have fields2: "generateFieldList ?w2 ?d ''1.csv'' \<noteq> []" by (simp add: f2)
  have first: "fst (importCsv ?w1 ''1.csv'' [] ?d) = SavepointFailed \<and>
     calls (pdb (snd (importCsv ?w1 ''1.csv'' [] ?d))) =
       [SetSavepoint ''csvimport0'', RevertToSavepoint ''csvimport0''] \<and>
     warnings (snd (importCsv ?w1 ''1.csv'' [] ?d)) =
       [''Error importing data.'' @ [CHR ''\<newline>''] @ ''Creating restore point failed: database is locked'']"
    using setup_failure_calls [where w = ?w1 and d = ?d and fileName = "''1.csv''" and nm = "[]" and e = False]
      fields1 d0 f1 t1 n1 o s1 e1
    by simp
  have second: "fst (importCsv ?w2 ''1.csv'' [] ?d) = CreateTableFailed \<and>
     calls (pdb (snd (importCsv ?w2 ''1.csv'' [] ?d))) =
       [SetSavepoint ''csvimport0'', CreateTable ''t'' ?fl, RevertToSavepoint ''csvimport0''] \<and>
     warnings (snd (importCsv ?w2 ''1.csv'' [] ?d)) =
       [''Error importing data.'' @ [CHR ''\<newline>''] @ ''Creating the table failed: disk full'']"
    using setup_failure_calls [where w = ?w2 and d = ?d and fileName = "''1.csv''" and nm = "[]" and e = False]
      fields2 d0 f2 t2 n2 o s2 c2 e2
    by simp
  from first second fields1 s1 c2 show ?thesis by simp
qed

text \<open>
  C3. Take a run that gets as far as the row loop: the file has columns, either a
  table of the target name exists with as many columns and the user agrees to import
  into it (\<open>e\<close>) or no table of that name exists, the savepoint is set and the new
  table, if one is needed, is created. When the progress sink answers false at a
  checkpoint of the file and the parser gets there (the row function has accepted
  every record before it and the source has not failed), the import leaves through
  the cancelled branch: the last call into the store is \<^verbatim>\<open>revertToSavepoint\<close> for the
  savepoint of the run, no warning is shown, and the objects of the store (tables and
  their rows) and its open savepoints are what they were before the import.
\<close>

theorem cancel_restores_store:
  fixes w d fileName nm e pre rest
  defines "tn \<equiv> tableNameFor w d fileName nm"
    and "fl \<equiv> generateFieldList w d fileName"
    and "sp \<equiv> generateSavepointName w (pdb d) ''csvimport''"
  defines "db1 \<equiv> snd (setSavepoint w sp (pdb d))"
  defines "db2 \<equiv> (if e then db1 else snd (createTable w tn fl db1))"
  assumes fields: "fl \<noteq> []"
    and target: "if e then (\<exists>tbl. getObjectByName (pdb d) tn = Some (TableObject tbl) \<and>
                              length (tfields tbl) = length fl) \<and> answerYes w
                 else (\<forall>tbl. getObjectByName (pdb d) tn \<noteq> Some (TableObject tbl))"
    and saved: "fst (setSavepoint w sp (pdb d))"
    and created: "e \<or> fst (createTable w tn fl db1)"
    and cancel: "files w fileName = pre @ Progress False # rest"
    and before: "accepted (importRow w (checkboxHeader d) e (if e then nullValuesOf (pdb d) tn else []))
                   pre 0
                   \<lparr>stmt = sqlite3_prepare_v2 (insertQuery w tn (length fl)) tn (length fl),
                    db = db2, lastRowNum = 0\<rparr>"
  shows "fst (importCsv w fileName nm d) = Cancelled \<and>
         last (calls (pdb (snd (importCsv w fileName nm d)))) = RevertToSavepoint sp \<and>
         warnings (snd (importCsv w fileName nm d)) = warnings d \<and>
         objects (pdb (snd (importCsv w fileName nm d))) = objects (pdb d) \<and>
         savepoints (pdb (snd (importCsv w fileName nm d))) = savepoints (pdb d)"
proof -
  have run: "importCsv w fileName nm d = importData w fileName tn fl e d"
    using fields target unfolding tn_def fl_def by (rule importCsv_proceeds)
  have tag: "fst (importData w fileName tn fl e d) = Cancelled"
  proof (cases rule: importData_cases [of w d fileName tn fl e])
    case (SavepointFailed db1')
    with saved show ?thesis by (simp add: sp_def)
  next
    case (CreateTableFailed db1' db2')
    from CreateTableFailed(1) have "db1' = db1" by (simp add: db1_def sp_def)
    with CreateTableFailed(2,3) created show ?thesis by simp
  next
    case (RowLoop db1' db2' result s)
    from RowLoop(1) have d1: "db1' = db1" by (simp add: db1_def sp_def)
    with RowLoop(2) have d2: "db2' = db2" by (auto simp: db2_def split: if_splits)
    from RowLoop(1) have "objects db1' = objects (pdb d)" using setSavepoint_ok by blast
    then have "nullValuesOf db1' tn = nullValuesOf (pdb d) tn" by (rule nullValuesOf_objects)
    with RowLoop(2) have nv: "(if e then nullValuesOf db2' tn else []) =
                              (if e then nullValuesOf (pdb d) tn else [])"
      by auto
    from parse_cancel [OF before, of "rowRejected w" rest] RowLoop(3)
    have "result = ParserResultCancelled"
      by (simp add: parseCSV_def cancel nv d2)
    with RowLoop(4) show ?thesis by simp
  qed
  obtain d' where imp: "importData w fileName tn fl e d = (Cancelled, d')"
    using tag by (cases "importData w fileName tn fl e d") simp
  from importData_rolled_back [OF imp] imp tag show ?thesis
    by (simp add: run sp_def)
qed

theorem cancel_restores_store_witness:
  "files (exampleWorld [(''1.csv'',
       [Record [''1'', ''2''], Record [''3'', ''4''], Progress False, Record [''5'', ''6'']])]) ''1.csv'' =
     [Record [''1'', ''2''], Record [''3'', ''4'']] @ Progress False # [Record [''5'', ''6'']] \<and>
   fst (importCsv (exampleWorld [(''1.csv'',
       [Record [''1'', ''2''], Record [''3'', ''4''], Progress False, Record [''5'', ''6'']])])
     ''1.csv'' [] (exampleDialog False [''1.csv''] peopleStore)) = Cancelled \<and>
   objects (pdb (snd (importCsv (exampleWorld [(''1.csv'',
       [Record [''1'', ''2''], Record [''3'', ''4''], Progress False, Record [''5'', ''6'']])])
     ''1.csv'' [] (exampleDialog False [''1.csv''] peopleStore)))) = objects peopleStore \<and>
   warnings (snd (importCsv (exampleWorld [(''1.csv'',
       [Record [''1'', ''2''], Record [''3'', ''4''], Progress False, Record [''5'', ''6'']])])
     ''1.csv'' [] (exampleDialog False [''1.csv''] peopleStore))) = [] \<and>
   fst (importCsv (exampleWorld [(''1.csv'',
       [Record [''1'', ''2''], Record [''3'', ''4''], Progress False, Record [''5'', ''6'']])])
     ''1.csv'' [] (exampleDialog False [''1.csv''] emptyStore)) = Cancelled \<and>
   objects (pdb (snd (importCsv (exampleWorld [(''1.csv'',
       [Record [''1'', ''2''], Record [''3'', ''4''], Progress False, Record [''5'', ''6'']])])
     ''1.csv'' [] (exampleDialog False [''1.csv''] emptyStore)))) = [] \<and>
   last (calls (pdb (snd (importCsv (exampleWorld [(''1.csv'',
       [Record [''1'', ''2''], Record [''3'', ''4''], Progress False, Record [''5'', ''6'']])])
     ''1.csv'' [] (exampleDialog False [''1.csv''] emptyStore))))) = RevertToSavepoint ''csvimport0''"
proof -
  let ?w = "exampleWorld [(''1.csv'',
       [Record [''1'', ''2''], Record [''3'', ''4''], Progress False, Record [''5'', ''6'']])]"
  let ?pre = "[Record [''1'', ''2''], Record [''3'', ''4'']]"
  let ?rest = "[Record [''5'', ''6'']]"
  let ?d = "exampleDialog False [''1.csv''] peopleStore"
  let ?dnew = "exampleDialog False [''1.csv''] emptyStore"
  let ?tn = "tableNameFor ?w ?d ''1.csv'' []"
  let ?fl = "generateFieldList ?w ?d ''1.csv''"
  let ?sp = "generateSavepointName ?w (pdb ?d) ''csvimport''"
  let ?tnnew = "tableNameFor ?w ?dnew ''1.csv'' []"
  let ?flnew = "generateFieldList ?w ?dnew ''1.csv''"
  let ?spnew = "generateSavepointName ?w (pdb ?dnew) ''csvimport''"
  have cancel: "files ?w ''1.csv'' = ?pre @ Progress False # ?rest" by code_simp
  have len: "length ?fl = 2" by code_simp
  then have fields: "?fl \<noteq> []" by auto
  have "getObjectByName (pdb ?d) ?tn = Some (TableObject
       \<lparr>tfields = [\<lparr>name = ''id'', type = ''INTEGER'', notnull = True, isInteger = True\<rparr>,
                   \<lparr>name = ''name'', type = ''TEXT'', notnull = False, isInteger = False\<rparr>],
        rows = [[Some ''7'', Some ''Ann'']]\<rparr>)"
    by code_simp
  moreover note len
  moreover have "answerYes ?w" by code_simp
  ultimately have target:
    "if True then (\<exists>tbl. getObjectByName (pdb ?d) ?tn = Some (TableObject tbl) \<and>
                          length (tfields tbl) = length ?fl) \<and> answerYes ?w
     else (\<forall>tbl. getObjectByName (pdb ?d) ?tn \<noteq> Some (TableObject tbl))"
    by simp
  have saved: "fst (setSavepoint ?w ?sp (pdb ?d))" by code_simp
  have created: "True \<or> fst (createTable ?w ?tn ?fl (snd (setSavepoint ?w ?sp (pdb ?d))))" by simp
  have before: "accepted (importRow ?w (checkboxHeader ?d) True (if True then nullValuesOf (pdb ?d) ?tn else []))
                   ?pre 0
                   \<lparr>stmt = sqlite3_prepare_v2 (insertQuery ?w ?tn (length ?fl)) ?tn (length ?fl),
                    db = (if True then snd (setSavepoint ?w ?sp (pdb ?d))
                          else snd (createTable ?w ?tn ?fl (snd (setSavepoint ?w ?sp (pdb ?d))))),
                    lastRowNum = 0\<rparr>"
    by code_simp
  note existing = cancel_restores_store [where e = True, OF fields target saved created cancel before]
  have "length ?flnew = 2" by code_simp
  then have fields0: "?flnew \<noteq> []" by auto
  have "getObjectByName (pdb ?dnew) ?tnnew = None" by code_simp
  then have target0:
    "if False then (\<exists>tbl. getObjectByName (pdb ?dnew) ?tnnew = Some (TableObject tbl) \<and>
                          length (tfields tbl) = length ?flnew) \<and> answerYes ?w
     else (\<forall>tbl. getObjectByName (pdb ?dnew) ?tnnew \<noteq> Some (TableObject tbl))"
    by simp
  have saved0: "fst (setSavepoint ?w ?spnew (pdb ?dnew))" by code_simp
  have "fst (createTable ?w ?tnnew ?flnew (snd (setSavepoint ?w ?spnew (pdb ?dnew))))" by code_simp
  then have created0: "False \<or> fst (createTable ?w ?tnnew ?flnew (snd (setSavepoint ?w ?spnew (pdb ?dnew))))"
    by simp
  have before0: "accepted (importRow ?w (checkboxHeader ?dnew) False (if False then nullValuesOf (pdb ?dnew) ?tnnew else []))
                   ?pre 0
                   \<lparr>stmt = sqlite3_prepare_v2 (insertQuery ?w ?tnnew (length ?flnew)) ?tnnew (length ?flnew),
                    db = (if False then snd (setSavepoint ?w ?spnew (pdb ?dnew))
                          else snd (createTable ?w ?tnnew ?flnew (snd (setSavepoint ?w ?spnew (pdb ?dnew))))),
                    lastRowNum = 0\<rparr>"
    by code_simp
  note new = cancel_restores_store [where e = False, OF fields0 target0 saved0 created0 cancel before0]
  have p: "pdb ?d = peopleStore" "warnings ?d = []" "pdb ?dnew = emptyStore" "objects emptyStore = []"
    by (simp_all add: exampleDialog_def emptyStore_def)
  have n0: "generateSavepointName ?w emptyStore ''csvimport'' = ''csvimport0''" by code_simp
  from existing new cancel p n0 show ?thesis by simp
qed



text \<open>
  C5. When a table of the target name exists and the number of its columns differs
  from the length of the inferred field list, the import returns with the store
  exactly as it was (no savepoint, no table, no row, no call at all), after the
  warning about the column count (or silently when the file has no columns).
\<close>

theorem column_mismatch_fails_fast:
  assumes "getObjectByName (pdb d) (tableNameFor w d fileName nm) = Some (TableObject tbl)"
    and "length (tfields tbl) \<noteq> length (generateFieldList w d fileName)"
  shows "pdb (snd (importCsv w fileName nm d)) = pdb d \<and>
         importCsv w fileName nm d =
           (if generateFieldList w d fileName = [] then (NothingToImport, d)
            else (ColumnMismatch, d\<lparr>warnings := warnings d @ [columnMismatchText]\<rparr>))"
  using assms by (simp add: importCsv_def Let_def)

theorem column_mismatch_fails_fast_witness:
  "getObjectByName (pdb (exampleDialog False [''1.csv''] peopleStore))
     (tableNameFor (exampleWorld [(''1.csv'', [Record [''1'', ''2'', ''3'']])])
        (exampleDialog False [''1.csv''] peopleStore) ''1.csv'' []) =
     Some (TableObject
       \<lparr>tfields = [\<lparr>name = ''id'', type = ''INTEGER'', notnull = True, isInteger = True\<rparr>,
                   \<lparr>name = ''name'', type = ''TEXT'', notnull = False, isInteger = False\<rparr>],
        rows = [[Some ''7'', Some ''Ann'']]\<rparr>) \<and>
   length (generateFieldList (exampleWorld [(''1.csv'', [Record [''1'', ''2'', ''3'']])])
     (exampleDialog False [''1.csv''] peopleStore) ''1.csv'') = 3 \<and>
   importCsv (exampleWorld [(''1.csv'', [Record [''1'', ''2'', ''3'']])]) ''1.csv'' []
     (exampleDialog False [''1.csv''] peopleStore) =
     (ColumnMismatch, (exampleDialog False [''1.csv''] peopleStore)\<lparr>warnings := [columnMismatchText]\<rparr>)"
proof -
  let ?w = "exampleWorld [(''1.csv'', [Record [''1'', ''2'', ''3'']])]"
  let ?d = "exampleDialog False [''1.csv''] peopleStore"
  let ?tbl = "\<lparr>tfields = [\<lparr>name = ''id'', type = ''INTEGER'', notnull = True, isInteger = True\<rparr>,
                   \<lparr>name = ''name'', type = ''TEXT'', notnull = False, isInteger = False\<rparr>],
        rows = [[Some ''7'', Some ''Ann'']]\<rparr>"
  have tbl: "getObjectByName (pdb ?d) (tableNameFor ?w ?d ''1.csv'' []) = Some (TableObject ?tbl)"
    by code_simp
  have len: "length (generateFieldList ?w ?d ''1.csv'') = 3" by code_simp
  then have cols: "length (tfields ?tbl) \<noteq> length (generateFieldList ?w ?d ''1.csv'')" by simp
  have ne: "generateFieldList ?w ?d ''1.csv'' \<noteq> []" using len by auto
  have w0: "warnings ?d = []" by code_simp
  from column_mismatch_fails_fast [OF tbl cols] ne w0 tbl len show ?thesis by simp
qed


end
